theory Spec2Isabelle
  imports Main
begin

section \<open>Python values and the builtins the database layer calls\<close>

text \<open>
  The values a row, a filter or a configuration can carry: \<open>None\<close>, booleans,
  integers, floats, text and lists of these. Text is a list of code points below 256.
  A float is carried as the text Python prints for it (\<open>repr\<close>: \<open>1.5\<close>,
  \<open>1e+16\<close>, \<open>inf\<close>, \<open>nan\<close>), which determines the float; no arithmetic on
  floats is modelled.
\<close>

datatype pyval =
    PNone
  | PBool bool
  | PInt int
  | PFloat string
  | PStr string
  | PList "pyval list"

text \<open>The exceptions the builtins \<open>int\<close> and \<open>float\<close> raise.\<close>

datatype pyexn = ValueError | TypeError | OverflowError

subsection \<open>\<open>str\<close> and \<open>repr\<close>\<close>

definition digit_char :: "nat \<Rightarrow> char" where
  "digit_char d = char_of (48 + d)"

fun nat_str :: "nat \<Rightarrow> string" where
  "nat_str n = (if n < 10 then [digit_char n] else nat_str (n div 10) @ [digit_char (n mod 10)])"

declare nat_str.simps [simp del]

definition int_str :: "int \<Rightarrow> string" where
  "int_str i = (if i < 0 then CHR ''-'' # nat_str (nat (- i)) else nat_str (nat i))"

definition hex_char :: "nat \<Rightarrow> char" where
  "hex_char d = (if d < 10 then char_of (48 + d) else char_of (87 + d))"

definition hex2 :: "nat \<Rightarrow> string" where
  "hex2 n = [hex_char (n div 16 mod 16), hex_char (n mod 16)]"

text \<open>
  \<open>repr\<close> of text escapes the quote in use, the backslash, tab, newline, carriage
  return, and writes every other non-printable code point as \<open>\xNN\<close>.
\<close>

definition printable :: "char \<Rightarrow> bool" where
  "printable c = (let n = (of_char c :: nat) in
     \<not> (n < 32 \<or> n = 127 \<or> (128 \<le> n \<and> n \<le> 160) \<or> n = 173))"

definition repr_char :: "char \<Rightarrow> char \<Rightarrow> string" where
  "repr_char q c =
     (if c = q \<or> c = CHR 0x5C then [CHR 0x5C, c]
      else if c = CHR 0x09 then [CHR 0x5C, CHR ''t'']
      else if c = CHR 0x0A then [CHR 0x5C, CHR ''n'']
      else if c = CHR 0x0D then [CHR 0x5C, CHR ''r'']
      else if \<not> printable c then [CHR 0x5C, CHR ''x''] @ hex2 (of_char c)
      else [c])"

definition repr_text :: "string \<Rightarrow> string" where
  "repr_text s =
     (let q = (if CHR 0x27 \<in> set s \<and> CHR 0x22 \<notin> set s then CHR 0x22 else CHR 0x27)
      in q # concat (map (repr_char q) s) @ [q])"

fun join :: "string \<Rightarrow> string list \<Rightarrow> string" where
  "join sep [] = []"
| "join sep [x] = x"
| "join sep (x # y # ys) = x @ sep @ join sep (y # ys)"

fun py_repr :: "pyval \<Rightarrow> string" where
  "py_repr PNone = ''None''"
| "py_repr (PBool b) = (if b then ''True'' else ''False'')"
| "py_repr (PInt i) = int_str i"
| "py_repr (PFloat r) = r"
| "py_repr (PStr s) = repr_text s"
| "py_repr (PList vs) = ''['' @ join '', '' (map py_repr vs) @ '']''"

definition py_str :: "pyval \<Rightarrow> string" where
  "py_str v = (case v of PStr s \<Rightarrow> s | _ \<Rightarrow> py_repr v)"

definition is_list :: "pyval \<Rightarrow> bool" where
  "is_list v = (case v of PList _ \<Rightarrow> True | _ \<Rightarrow> False)"

definition list_items :: "pyval \<Rightarrow> pyval list" where
  "list_items v = (case v of PList vs \<Rightarrow> vs | _ \<Rightarrow> [])"

subsection \<open>\<open>int\<close>, \<open>float\<close>, \<open>bool\<close> and \<open>str.lower\<close>\<close>

definition is_space :: "char \<Rightarrow> bool" where
  "is_space c = (let n = (of_char c :: nat) in
     (9 \<le> n \<and> n \<le> 13) \<or> (28 \<le> n \<and> n \<le> 32) \<or> n = 133 \<or> n = 160)"

definition strip :: "string \<Rightarrow> string" where
  "strip s = rev (dropWhile is_space (rev (dropWhile is_space s)))"

definition is_digit :: "char \<Rightarrow> bool" where
  "is_digit c = (let n = (of_char c :: nat) in 48 \<le> n \<and> n \<le> 57)"

definition digit_val :: "char \<Rightarrow> nat" where
  "digit_val c = of_char c - 48"

text \<open>
  The digits of an integer literal, with single underscores allowed between digits:
  \<open>after_digit\<close> says whether the character before was a digit. (The interpreter's
  limit on the number of digits of a literal is not modelled.)
\<close>

fun digits_value :: "bool \<Rightarrow> nat \<Rightarrow> string \<Rightarrow> nat option" where
  "digits_value after_digit acc [] = (if after_digit then Some acc else None)"
| "digits_value after_digit acc (c # cs) =
     (if is_digit c then digits_value True (10 * acc + digit_val c) cs
      else if c = CHR ''_'' \<and> after_digit then digits_value False acc cs
      else None)"

definition signed_body :: "string \<Rightarrow> bool \<times> string" where
  "signed_body s =
     (case s of
        [] \<Rightarrow> (False, [])
      | c # cs \<Rightarrow> if c = CHR ''-'' then (True, cs) else if c = CHR ''+'' then (False, cs) else (False, s))"

definition int_of_text :: "string \<Rightarrow> int option" where
  "int_of_text s =
     (let (neg, body) = signed_body (strip s) in
      case digits_value False 0 body of
        None \<Rightarrow> None
      | Some n \<Rightarrow> Some (if neg then - int n else int n))"

text \<open>
  \<open>int\<close> of a float truncates towards zero; the float's printed form is a decimal
  \<open>ddd.ddd\<close> with an optional exponent \<open>e+NN\<close>, or \<open>inf\<close>, or \<open>nan\<close>.
\<close>

definition plain_digits :: "string \<Rightarrow> nat option" where
  "plain_digits s = (if s \<noteq> [] \<and> (\<forall>c \<in> set s. is_digit c) then digits_value False 0 s else None)"

definition split_at :: "char \<Rightarrow> string \<Rightarrow> string \<times> string option" where
  "split_at c s =
     (let a = takeWhile (\<lambda>x. x \<noteq> c) s; b = dropWhile (\<lambda>x. x \<noteq> c) s
      in (a, if b = [] then None else Some (tl b)))"

definition float_trunc :: "string \<Rightarrow> pyexn + int" where
  "float_trunc r =
     (let (neg, body) = (case r of [] \<Rightarrow> (False, r)
                         | c # cs \<Rightarrow> if c = CHR ''-'' then (True, cs) else (False, r))
      in if body = ''inf'' then Inl OverflowError
         else if body = ''nan'' then Inl ValueError
         else
           let (mant, ex) = split_at CHR ''e'' body;
               (ip, fp) = split_at CHR ''.'' mant;
               fr = (case fp of None \<Rightarrow> [] | Some f \<Rightarrow> f);
               e10 = (case ex of
                        None \<Rightarrow> Some 0
                      | Some t \<Rightarrow>
                          (let (eneg, et) = signed_body t in
                           map_option (\<lambda>n. if eneg then - int n else int n) (plain_digits et)))
           in case (plain_digits (ip @ fr), e10) of
                (Some m, Some e) \<Rightarrow>
                  (let sh = e - int (length fr);
                       mag = (if 0 \<le> sh then int m * 10 ^ nat sh else int m div 10 ^ nat (- sh))
                   in Inr (if neg then - mag else mag))
              | _ \<Rightarrow> Inl ValueError)"

definition py_int :: "pyval \<Rightarrow> pyexn + int" where
  "py_int v =
     (case v of
        PInt i \<Rightarrow> Inr i
      | PBool b \<Rightarrow> Inr (if b then 1 else 0)
      | PFloat r \<Rightarrow> float_trunc r
      | PStr s \<Rightarrow> (case int_of_text s of None \<Rightarrow> Inl ValueError | Some i \<Rightarrow> Inr i)
      | PNone \<Rightarrow> Inl TypeError
      | PList _ \<Rightarrow> Inl TypeError)"

text \<open>
  \<open>float\<close> rounds to the nearest double. The two roundings (of a decimal text and of
  an integer) are floating-point computations and stay parameters of the model; what is
  fixed here is which calls raise: \<open>None\<close> and lists are a \<open>TypeError\<close>, text that is
  not a float literal a \<open>ValueError\<close>, and an integer that rounds beyond the largest
  double an \<open>OverflowError\<close>.
\<close>

record float_conv =
  text_to_float :: "string \<Rightarrow> string option"
  int_to_float :: "int \<Rightarrow> string"

definition float_overflows :: "int \<Rightarrow> bool" where
  "float_overflows i = (2 ^ 1024 - 2 ^ 970 \<le> \<bar>i\<bar>)"

definition py_float :: "float_conv \<Rightarrow> pyval \<Rightarrow> pyexn + string" where
  "py_float fc v =
     (case v of
        PFloat r \<Rightarrow> Inr r
      | PBool b \<Rightarrow> Inr (if b then ''1.0'' else ''0.0'')
      | PInt i \<Rightarrow> if float_overflows i then Inl OverflowError else Inr (int_to_float fc i)
      | PStr s \<Rightarrow> (case text_to_float fc s of None \<Rightarrow> Inl ValueError | Some r \<Rightarrow> Inr r)
      | PNone \<Rightarrow> Inl TypeError
      | PList _ \<Rightarrow> Inl TypeError)"

definition py_bool :: "pyval \<Rightarrow> bool" where
  "py_bool v =
     (case v of
        PNone \<Rightarrow> False
      | PBool b \<Rightarrow> b
      | PInt i \<Rightarrow> i \<noteq> 0
      | PFloat r \<Rightarrow> r \<noteq> ''0.0'' \<and> r \<noteq> ''-0.0''
      | PStr s \<Rightarrow> s \<noteq> []
      | PList vs \<Rightarrow> vs \<noteq> [])"

definition lower_char :: "char \<Rightarrow> char" where
  "lower_char c = (let n = (of_char c :: nat) in
     if (65 \<le> n \<and> n \<le> 90) \<or> (192 \<le> n \<and> n \<le> 222 \<and> n \<noteq> 215) then char_of (n + 32) else c)"

definition lower :: "string \<Rightarrow> string" where
  "lower s = map lower_char s"


subsection \<open>Dictionaries\<close>

text \<open>
  A \<open>dict\<close> keeps its keys in insertion order: a list of pairs with distinct keys.
  Assigning to a key that is present keeps its position; a new key goes last.
\<close>

type_synonym 'v dict = "(string \<times> 'v) list"

definition keys :: "'v dict \<Rightarrow> string list" where
  "keys d = map fst d"

fun dict_set :: "'v dict \<Rightarrow> string \<Rightarrow> 'v \<Rightarrow> 'v dict" where
  "dict_set [] k v = [(k, v)]"
| "dict_set ((k', v') # d) k v = (if k' = k then (k, v) # d else (k', v') # dict_set d k v)"

definition dict_get :: "'v dict \<Rightarrow> string \<Rightarrow> 'v option" where
  "dict_get d k = map_of d k"

section \<open>The storage engine\<close>

text \<open>
  What the SQL statements of the database layer do, on the tables the connection sees.
  A table is its column definitions, in order, and its rows; every column has text
  affinity and every bound parameter is text, so a cell is text or \<open>NULL\<close>. A name
  is the text the statement carries for it (in brackets, or bare in the column list of
  the \<open>INSERT\<close> that \<open>insert_data\<close> builds), and names are compared as the Python
  code compares them; the engine's folding of letter case in identifiers and its
  reading of text that is not a plain name are not modelled.
\<close>

type_synonym cell = "string option"
type_synonym sqlrow = "(string \<times> cell) list"

record column =
  c_name :: string
  c_notnull :: bool
  c_pk :: bool

record table =
  t_cols :: "column list"
  t_rows :: "sqlrow list"

type_synonym tables = "(string \<times> table) list"

datatype sqlerr =
    NoSuchTable string
  | TableExists string
  | DuplicateColumn string
  | NoSuchColumn string
  | NotNullFailed string
  | UniqueFailed string

text \<open>
  A \<open>WHERE\<close> clause is a conjunction of: \<open>[c] = ?\<close>, \<open>[c] IN (?, ...)\<close>, and a
  parenthesised disjunction \<open>([c1] = ? OR [c2] = ? ...)\<close> against one parameter.
\<close>

datatype cond =
    Eq string string
  | In string "string list"
  | AnyEq "string list" string

definition col_names :: "table \<Rightarrow> string list" where
  "col_names t = map c_name (t_cols t)"

definition cell_of :: "sqlrow \<Rightarrow> string \<Rightarrow> cell" where
  "cell_of r c = (case map_of r c of Some (Some v) \<Rightarrow> Some v | _ \<Rightarrow> None)"

fun cond_cols :: "cond \<Rightarrow> string list" where
  "cond_cols (Eq c v) = [c]"
| "cond_cols (In c vs) = [c]"
| "cond_cols (AnyEq cs v) = cs"

text \<open>A comparison with \<open>NULL\<close> is not true, so a \<open>NULL\<close> cell satisfies no condition.\<close>

fun holds :: "sqlrow \<Rightarrow> cond \<Rightarrow> bool" where
  "holds r (Eq c v) = (cell_of r c = Some v)"
| "holds r (In c vs) = list_ex (\<lambda>v. cell_of r c = Some v) vs"
| "holds r (AnyEq cs v) = list_ex (\<lambda>c. cell_of r c = Some v) cs"

definition matches :: "cond list \<Rightarrow> sqlrow \<Rightarrow> bool" where
  "matches conds r = list_all (holds r) conds"

definition missing_col :: "table \<Rightarrow> string list \<Rightarrow> string option" where
  "missing_col t cs = find (\<lambda>c. c \<notin> set (col_names t)) cs"

fun first_dup :: "string list \<Rightarrow> string option" where
  "first_dup [] = None"
| "first_dup (x # xs) = (if x \<in> set xs then Some x else first_dup xs)"

definition put_table :: "string \<Rightarrow> table \<Rightarrow> tables \<Rightarrow> tables" where
  "put_table n t db = map (\<lambda>(m, u). if m = n then (m, t) else (m, u)) db"

definition sql_create_table :: "tables \<Rightarrow> string \<Rightarrow> column list \<Rightarrow> sqlerr + tables" where
  "sql_create_table db n cols =
     (if map_of db n \<noteq> None then Inl (TableExists n)
      else case first_dup (map c_name cols) of
             Some c \<Rightarrow> Inl (DuplicateColumn c)
           | None \<Rightarrow> Inr (db @ [(n, \<lparr>t_cols = cols, t_rows = []\<rparr>)]))"

definition sql_drop_table :: "tables \<Rightarrow> string \<Rightarrow> sqlerr + tables" where
  "sql_drop_table db n =
     (if map_of db n = None then Inl (NoSuchTable n)
      else Inr (filter (\<lambda>(m, u). m \<noteq> n) db))"

text \<open>\<open>ALTER TABLE ... ADD COLUMN [c] TEXT\<close>: the rows there get \<open>NULL\<close> in the new column.\<close>

definition sql_add_column :: "tables \<Rightarrow> string \<Rightarrow> string \<Rightarrow> sqlerr + tables" where
  "sql_add_column db n c =
     (case map_of db n of
        None \<Rightarrow> Inl (NoSuchTable n)
      | Some t \<Rightarrow>
          if c \<in> set (col_names t) then Inl (DuplicateColumn c)
          else Inr (put_table n
                 \<lparr>t_cols = t_cols t @ [\<lparr>c_name = c, c_notnull = False, c_pk = False\<rparr>],
                  t_rows = map (\<lambda>r. r @ [(c, None)]) (t_rows t)\<rparr> db))"

text \<open>
  The row an \<open>INSERT\<close> builds: one cell per column of the table, \<open>NULL\<close> where the
  statement names no value. A primary key is unique among the cells that are not
  \<open>NULL\<close>.
\<close>

definition new_row :: "table \<Rightarrow> (string \<times> string) list \<Rightarrow> sqlrow" where
  "new_row t binds = map (\<lambda>c. (c_name c, map_of binds (c_name c))) (t_cols t)"

definition null_violation :: "table \<Rightarrow> sqlrow \<Rightarrow> string option" where
  "null_violation t r =
     map_option c_name (find (\<lambda>c. c_notnull c \<and> cell_of r (c_name c) = None) (t_cols t))"

definition same_key :: "table \<Rightarrow> sqlrow \<Rightarrow> sqlrow \<Rightarrow> bool" where
  "same_key t r r' =
     list_ex (\<lambda>c. c_pk c \<and> cell_of r (c_name c) \<noteq> None
                 \<and> cell_of r' (c_name c) = cell_of r (c_name c)) (t_cols t)"

definition key_violation :: "table \<Rightarrow> sqlrow \<Rightarrow> string option" where
  "key_violation t r =
     (if list_ex (same_key t r) (t_rows t)
      then map_option c_name (find c_pk (t_cols t)) else None)"

definition sql_insert :: "tables \<Rightarrow> string \<Rightarrow> (string \<times> string) list \<Rightarrow> sqlerr + tables" where
  "sql_insert db n binds =
     (case map_of db n of
        None \<Rightarrow> Inl (NoSuchTable n)
      | Some t \<Rightarrow>
          (case missing_col t (map fst binds) of
             Some c \<Rightarrow> Inl (NoSuchColumn c)
           | None \<Rightarrow>
               let r = new_row t binds in
               (case null_violation t r of
                  Some c \<Rightarrow> Inl (NotNullFailed c)
                | None \<Rightarrow>
                    (case key_violation t r of
                       Some c \<Rightarrow> Inl (UniqueFailed c)
                     | None \<Rightarrow> Inr (put_table n (t\<lparr>t_rows := t_rows t @ [r]\<rparr>) db)))))"

text \<open>\<open>INSERT OR REPLACE\<close>: the rows holding the new row's primary key are removed first.\<close>

definition sql_replace :: "tables \<Rightarrow> string \<Rightarrow> (string \<times> string) list \<Rightarrow> sqlerr + tables" where
  "sql_replace db n binds =
     (case map_of db n of
        None \<Rightarrow> Inl (NoSuchTable n)
      | Some t \<Rightarrow>
          (case missing_col t (map fst binds) of
             Some c \<Rightarrow> Inl (NoSuchColumn c)
           | None \<Rightarrow>
               let r = new_row t binds in
               (case null_violation t r of
                  Some c \<Rightarrow> Inl (NotNullFailed c)
                | None \<Rightarrow>
                    Inr (put_table n
                      (t\<lparr>t_rows := filter (\<lambda>r'. \<not> same_key t r r') (t_rows t) @ [r]\<rparr>) db))))"

definition sql_select :: "tables \<Rightarrow> string \<Rightarrow> cond list \<Rightarrow> sqlerr + sqlrow list" where
  "sql_select db n conds =
     (case map_of db n of
        None \<Rightarrow> Inl (NoSuchTable n)
      | Some t \<Rightarrow>
          (case missing_col t (concat (map cond_cols conds)) of
             Some c \<Rightarrow> Inl (NoSuchColumn c)
           | None \<Rightarrow> Inr (filter (matches conds) (t_rows t))))"

text \<open>\<open>DELETE\<close> gives the tables left and the number of rows removed (\<open>rowcount\<close>).\<close>

definition sql_delete :: "tables \<Rightarrow> string \<Rightarrow> cond list \<Rightarrow> sqlerr + tables \<times> nat" where
  "sql_delete db n conds =
     (case map_of db n of
        None \<Rightarrow> Inl (NoSuchTable n)
      | Some t \<Rightarrow>
          (case missing_col t (concat (map cond_cols conds)) of
             Some c \<Rightarrow> Inl (NoSuchColumn c)
           | None \<Rightarrow>
               Inr (put_table n (t\<lparr>t_rows := filter (\<lambda>r. \<not> matches conds r) (t_rows t)\<rparr>) db,
                    length (filter (matches conds) (t_rows t)))))"


text \<open>\<open>SELECT c FROM n WHERE ...\<close>: the cells of column \<open>c\<close> in the matching rows.\<close>

definition sql_select_column ::
  "tables \<Rightarrow> string \<Rightarrow> string \<Rightarrow> cond list \<Rightarrow> sqlerr + cell list" where
  "sql_select_column db n c conds =
     (case map_of db n of
        None \<Rightarrow> Inl (NoSuchTable n)
      | Some t \<Rightarrow>
          (case missing_col t (c # concat (map cond_cols conds)) of
             Some c' \<Rightarrow> Inl (NoSuchColumn c')
           | None \<Rightarrow> Inr (map (\<lambda>r. cell_of r c) (filter (matches conds) (t_rows t)))))"

section \<open>The JSON documents of the configuration store\<close>

text \<open>
  \<open>json.dumps\<close> on a dictionary from text to text, and \<open>json.loads\<close> on such
  documents. The writer escapes the quote, the backslash and every code point outside
  the printable ASCII range. The reader accepts objects whose values are text, with any
  white space between the tokens; a document of another shape is outside the model and
  read as a decoding error.
\<close>

definition json_escape :: "char \<Rightarrow> string" where
  "json_escape c =
     (if c = CHR 0x22 then [CHR 0x5C, CHR 0x22]
      else if c = CHR 0x5C then [CHR 0x5C, CHR 0x5C]
      else if c = CHR 0x0A then [CHR 0x5C, CHR ''n'']
      else if c = CHR 0x0D then [CHR 0x5C, CHR ''r'']
      else if c = CHR 0x09 then [CHR 0x5C, CHR ''t'']
      else if c = CHR 0x08 then [CHR 0x5C, CHR ''b'']
      else if c = CHR 0x0C then [CHR 0x5C, CHR ''f'']
      else if (of_char c :: nat) < 32 \<or> 126 < (of_char c :: nat)
        then [CHR 0x5C, CHR ''u'', CHR ''0'', CHR ''0''] @ hex2 (of_char c)
      else [c])"

definition json_string :: "string \<Rightarrow> string" where
  "json_string s = CHR 0x22 # concat (map json_escape s) @ [CHR 0x22]"

definition json_member :: "string \<times> string \<Rightarrow> string" where
  "json_member kv = json_string (fst kv) @ '': '' @ json_string (snd kv)"

definition json_dumps :: "string dict \<Rightarrow> string" where
  "json_dumps d = ''{'' @ join '', '' (map json_member d) @ ''}''"

definition hex_val :: "char \<Rightarrow> nat option" where
  "hex_val c = (let n = (of_char c :: nat) in
     if 48 \<le> n \<and> n \<le> 57 then Some (n - 48)
     else if 97 \<le> n \<and> n \<le> 102 then Some (n - 87)
     else if 65 \<le> n \<and> n \<le> 70 then Some (n - 55)
     else None)"

definition unicode_escape :: "char \<Rightarrow> char \<Rightarrow> char \<Rightarrow> char \<Rightarrow> char option" where
  "unicode_escape h1 h2 h3 h4 =
     (case (hex_val h1, hex_val h2, hex_val h3, hex_val h4) of
        (Some a, Some b, Some c, Some d) \<Rightarrow>
          (let n = ((a * 16 + b) * 16 + c) * 16 + d in if n < 256 then Some (char_of n) else None)
      | _ \<Rightarrow> None)"

definition simple_escape :: "char \<Rightarrow> char option" where
  "simple_escape e =
     (if e = CHR 0x22 \<or> e = CHR 0x5C \<or> e = CHR ''/'' then Some e
      else if e = CHR ''n'' then Some (CHR 0x0A)
      else if e = CHR ''r'' then Some (CHR 0x0D)
      else if e = CHR ''t'' then Some (CHR 0x09)
      else if e = CHR ''b'' then Some (CHR 0x08)
      else if e = CHR ''f'' then Some (CHR 0x0C)
      else None)"

text \<open>The text of a string literal after its opening quote, and what follows the closing quote.\<close>

fun json_chars :: "string \<Rightarrow> (string \<times> string) option" where
  "json_chars [] = None"
| "json_chars (c # cs) =
     (if c = CHR 0x22 then Some ([], cs)
      else if c = CHR 0x5C then
        (case cs of
           [] \<Rightarrow> None
         | e # es \<Rightarrow>
             if e = CHR ''u'' then
               (case es of
                  h1 # h2 # h3 # h4 # rest \<Rightarrow>
                    (case unicode_escape h1 h2 h3 h4 of
                       None \<Rightarrow> None
                     | Some ch \<Rightarrow> map_option (apfst ((#) ch)) (json_chars rest))
                | _ \<Rightarrow> None)
             else
               (case simple_escape e of
                  None \<Rightarrow> None
                | Some ch \<Rightarrow> map_option (apfst ((#) ch)) (json_chars es)))
      else if (of_char c :: nat) < 32 then None
      else map_option (apfst ((#) c)) (json_chars cs))"

definition json_ws :: "char \<Rightarrow> bool" where
  "json_ws c = (c = CHR '' '' \<or> c = CHR 0x09 \<or> c = CHR 0x0A \<or> c = CHR 0x0D)"

definition skip_ws :: "string \<Rightarrow> string" where
  "skip_ws s = dropWhile json_ws s"

definition json_text :: "string \<Rightarrow> (string \<times> string) option" where
  "json_text s = (case skip_ws s of [] \<Rightarrow> None
                  | c # cs \<Rightarrow> if c = CHR 0x22 then json_chars cs else None)"

lemma json_chars_shorter: "json_chars s = Some (t, r) \<Longrightarrow> length r < length s"
proof (induction s arbitrary: t r rule: json_chars.induct)
  case 1
  then show ?case by simp
next
  case (2 c cs)
  then show ?case
    by (fastforce split: if_splits list.splits option.splits)
qed

lemma skip_ws_length: "length (skip_ws s) \<le> length s"
  by (simp add: skip_ws_def length_dropWhile_le)

lemma json_text_shorter: "json_text s = Some (t, r) \<Longrightarrow> length r < length s"
proof -
  assume a: "json_text s = Some (t, r)"
  then obtain cs where c: "skip_ws s = CHR 0x22 # cs" and j: "json_chars cs = Some (t, r)"
    by (auto simp: json_text_def split: list.splits if_splits)
  from j have "length r < length cs" by (rule json_chars_shorter)
  moreover from c skip_ws_length [of s] have "length cs < length s" by simp
  ultimately show ?thesis by simp
qed

text \<open>The members of an object after its opening brace, up to the closing brace.\<close>

function json_members :: "string \<Rightarrow> ((string \<times> string) list \<times> string) option" where
  "json_members s =
     (case json_text s of
        None \<Rightarrow> None
      | Some (k, r1) \<Rightarrow>
          (case skip_ws r1 of
             [] \<Rightarrow> None
           | c1 # r2 \<Rightarrow>
               if c1 \<noteq> CHR '':'' then None
               else
                 (case json_text r2 of
                    None \<Rightarrow> None
                  | Some (v, r3) \<Rightarrow>
                      (case skip_ws r3 of
                         [] \<Rightarrow> None
                       | c2 # r4 \<Rightarrow>
                           if c2 = CHR ''}'' then Some ([(k, v)], r4)
                           else if c2 = CHR '','' then map_option (apfst ((#) (k, v))) (json_members r4)
                           else None))))"
  by pat_completeness auto
termination
proof (relation "measure length")
  show "wf (measure length)" by simp
next
  fix s x2 k r1 c1 r2 y2 v r3 c2 r4
  assume "json_text s = Some x2" "(k, r1) = x2" "skip_ws r1 = c1 # r2"
    "json_text r2 = Some y2" "(v, r3) = y2" "skip_ws r3 = c2 # r4"
  then have a: "length r1 < length s" and b: "length r3 < length r2"
    by (auto dest: json_text_shorter)
  assume "skip_ws r1 = c1 # r2" "skip_ws r3 = c2 # r4"
  with skip_ws_length [of r1] skip_ws_length [of r3]
  have "length r2 < length r1" "length r4 \<le> length r3" by simp_all
  with a b show "(r4, s) \<in> measure length" by simp
qed

declare json_members.simps [simp del]

definition json_loads :: "string \<Rightarrow> string dict option" where
  "json_loads s =
     (case skip_ws s of
        [] \<Rightarrow> None
      | c # r \<Rightarrow>
          if c \<noteq> CHR ''{'' then None
          else
            (case skip_ws r of
               [] \<Rightarrow> None
             | c' # r' \<Rightarrow>
                 if c' = CHR ''}'' then (if skip_ws r' = [] then Some [] else None)
                 else
                   (case json_members r of
                      None \<Rightarrow> None
                    | Some (kvs, rest) \<Rightarrow>
                        if skip_ws rest = [] then Some (fold (\<lambda>(k, v) d. dict_set d k v) kvs [])
                        else None)))"


section \<open>The database layer\<close>

text \<open>
  The state of a \<open>Database\<close> object: the tables its connection sees, and whether an
  \<open>INSERT\<close>, \<open>REPLACE\<close> or \<open>DELETE\<close> has changed them since the last
  \<open>commit\<close>.
\<close>

record database =
  db_tables :: tables
  db_pending :: bool

text \<open>
  The exceptions of the layer. \<open>InvalidType c t\<close> is the \<open>ValueError\<close> that
  validation raises for column \<open>c\<close> and expected type \<open>t\<close>; \<open>MissingFilter\<close> the
  \<open>ValueError\<close> of a delete without filters; \<open>SqlError\<close> an error of the engine;
  \<open>Uncaught\<close> an exception of a builtin that no handler of the layer catches.
\<close>

datatype error =
    TableAlreadyExistsError string
  | TableNotFoundError string
  | MissingFilter
  | InvalidType string string
  | KeyError string
  | SqlError sqlerr
  | Uncaught pyexn
  | JSONDecodeError

definition commit :: "database \<Rightarrow> database" where
  "commit db = db\<lparr>db_pending := False\<rparr>"

definition changed :: "database \<Rightarrow> tables \<Rightarrow> database" where
  "changed db ts = db\<lparr>db_tables := ts, db_pending := True\<rparr>"

definition reserved :: "string list" where
  "reserved = [''id'', ''created_at'']"

definition config_table :: string where
  "config_table = ''_skypy_config''"

definition text_column :: "string \<Rightarrow> column" where
  "text_column c = \<lparr>c_name = c, c_notnull = False, c_pk = False\<rparr>"

definition base_columns :: "column list" where
  "base_columns =
     [\<lparr>c_name = ''id'', c_notnull = False, c_pk = True\<rparr>,
      \<lparr>c_name = ''created_at'', c_notnull = True, c_pk = False\<rparr>]"

definition config_columns :: "column list" where
  "config_columns =
     [\<lparr>c_name = ''table_name'', c_notnull = False, c_pk = True\<rparr>,
      \<lparr>c_name = ''config'', c_notnull = True, c_pk = False\<rparr>,
      \<lparr>c_name = ''created_at'', c_notnull = True, c_pk = False\<rparr>]"

definition table_exists :: "database \<Rightarrow> string \<Rightarrow> bool" where
  "table_exists db table_name = (map_of (db_tables db) table_name \<noteq> None)"

definition ensure_config_table :: "database \<Rightarrow> database" where
  "ensure_config_table db =
     (if table_exists db config_table then commit db
      else commit (db\<lparr>db_tables :=
             db_tables db @ [(config_table, \<lparr>t_cols = config_columns, t_rows = []\<rparr>)]\<rparr>))"

definition create_table :: "database \<Rightarrow> string \<Rightarrow> database \<times> (error + unit)" where
  "create_table db table_name =
     (if table_exists db table_name then (db, Inl (TableAlreadyExistsError table_name))
      else case sql_create_table (db_tables db) table_name base_columns of
             Inl e \<Rightarrow> (db, Inl (SqlError e))
           | Inr ts \<Rightarrow> (commit (db\<lparr>db_tables := ts\<rparr>), Inr ()))"

definition delete_table :: "database \<Rightarrow> string \<Rightarrow> database \<times> (error + unit)" where
  "delete_table db table_name =
     (if \<not> table_exists db table_name then (db, Inl (TableNotFoundError table_name))
      else case sql_drop_table (db_tables db) table_name of
             Inl e \<Rightarrow> (db, Inl (SqlError e))
           | Inr ts \<Rightarrow> (commit (db\<lparr>db_tables := ts\<rparr>), Inr ()))"

definition get_table_columns :: "database \<Rightarrow> string \<Rightarrow> error + string list" where
  "get_table_columns db table_name =
     (case map_of (db_tables db) table_name of
        None \<Rightarrow> Inl (TableNotFoundError table_name)
      | Some t \<Rightarrow> Inr (col_names t))"

text \<open>
  The loop of \<open>add_columns_if_needed\<close>: \<open>existing\<close> is read once, before the loop.
\<close>

fun add_columns_loop :: "tables \<Rightarrow> string \<Rightarrow> string list \<Rightarrow> string list \<Rightarrow> tables \<times> sqlerr option" where
  "add_columns_loop ts table_name existing [] = (ts, None)"
| "add_columns_loop ts table_name existing (column # columns) =
     (if column \<notin> set existing \<and> column \<notin> set reserved then
        (case sql_add_column ts table_name column of
           Inl e \<Rightarrow> (ts, Some e)
         | Inr ts' \<Rightarrow> add_columns_loop ts' table_name existing columns)
      else add_columns_loop ts table_name existing columns)"

definition add_columns_if_needed :: "database \<Rightarrow> string \<Rightarrow> string list \<Rightarrow> database \<times> (error + unit)" where
  "add_columns_if_needed db table_name columns =
     (case get_table_columns db table_name of
        Inl e \<Rightarrow> (db, Inl e)
      | Inr existing \<Rightarrow>
          (case add_columns_loop (db_tables db) table_name existing columns of
             (ts, Some e) \<Rightarrow> (db\<lparr>db_tables := ts\<rparr>, Inl (SqlError e))
           | (ts, None) \<Rightarrow> (commit (db\<lparr>db_tables := ts\<rparr>), Inr ())))"

text \<open>
  \<open>insert_data\<close> assigns into the dictionary the caller passed, so the dictionary as
  the call leaves it is part of the result, also when the call raises. \<open>uuid\<close> is what
  \<open>str(uuid.uuid4())\<close> returns in the call and \<open>now\<close> what
  \<open>datetime.now().isoformat()\<close> returns.
\<close>

definition insert_data ::
  "database \<Rightarrow> string \<Rightarrow> pyval dict \<Rightarrow> bool \<Rightarrow> string \<Rightarrow> string
     \<Rightarrow> database \<times> pyval dict \<times> (error + pyval)" where
  "insert_data db table_name data generate_id uuid now =
     (if \<not> table_exists db table_name then (db, data, Inl (TableNotFoundError table_name))
      else
        let data1 = (if generate_id then dict_set data ''id'' (PStr uuid) else data);
            data2 = (if ''created_at'' \<notin> set (keys data1)
                     then dict_set data1 ''created_at'' (PStr now) else data1);
            columns_to_add = filter (\<lambda>col. col \<notin> set reserved) (keys data2);
            (db1, added) = (if columns_to_add \<noteq> []
                            then add_columns_if_needed db table_name columns_to_add
                            else (db, Inr ()))
        in case added of
             Inl e \<Rightarrow> (db1, data2, Inl e)
           | Inr u \<Rightarrow>
               (case sql_insert (db_tables db1) table_name (map (\<lambda>(col, v). (col, py_str v)) data2) of
                  Inl e \<Rightarrow> (db1, data2, Inl (SqlError e))
                | Inr ts \<Rightarrow>
                    (commit (changed db1 ts), data2,
                     case dict_get data2 ''id'' of
                       None \<Rightarrow> Inl (KeyError ''id'')
                     | Some v \<Rightarrow> Inr v)))"

text \<open>
  The condition one filter entry contributes, in \<open>search\<close> and in \<open>delete_data\<close>
  alike: a list that is not empty gives \<open>IN\<close>, every other value an equality with its
  \<open>str\<close>.
\<close>

definition filter_condition :: "string \<Rightarrow> pyval \<Rightarrow> cond" where
  "filter_condition column v =
     (if is_list v \<and> length (list_items v) > 0
      then In column (map py_str (list_items v))
      else Eq column (py_str v))"

definition index_conditions :: "database \<Rightarrow> string \<Rightarrow> pyval option \<Rightarrow> error + cond list" where
  "index_conditions db table_name index =
     (case index of
        None \<Rightarrow> Inr []
      | Some ix \<Rightarrow>
          (case get_table_columns db table_name of
             Inl e \<Rightarrow> Inl e
           | Inr columns \<Rightarrow>
               let non_standard_columns = filter (\<lambda>col. col \<notin> set reserved) columns
               in if non_standard_columns \<noteq> []
                  then Inr [AnyEq non_standard_columns (py_str ix)] else Inr []))"

definition search_conditions :: "pyval dict \<Rightarrow> cond list" where
  "search_conditions filters =
     concat (map (\<lambda>(column, v). if column \<notin> set reserved then [filter_condition column v] else [])
               filters)"

definition search :: "database \<Rightarrow> string \<Rightarrow> pyval option \<Rightarrow> pyval dict \<Rightarrow> error + sqlrow list" where
  "search db table_name index filters =
     (if \<not> table_exists db table_name then Inl (TableNotFoundError table_name)
      else case index_conditions db table_name index of
             Inl e \<Rightarrow> Inl e
           | Inr conditions \<Rightarrow>
               (case sql_select (db_tables db) table_name (conditions @ search_conditions filters) of
                  Inl e \<Rightarrow> Inl (SqlError e)
                | Inr results \<Rightarrow> Inr results))"

definition get_all_tables :: "database \<Rightarrow> string list" where
  "get_all_tables db = map fst (db_tables db)"

definition get_all_data :: "database \<Rightarrow> string \<Rightarrow> error + sqlrow list" where
  "get_all_data db table_name =
     (if \<not> table_exists db table_name then Inl (TableNotFoundError table_name)
      else case sql_select (db_tables db) table_name [] of
             Inl e \<Rightarrow> Inl (SqlError e)
           | Inr results \<Rightarrow> Inr results)"

definition delete_conditions :: "pyval dict \<Rightarrow> cond list" where
  "delete_conditions filters = map (\<lambda>(column, v). filter_condition column v) filters"

definition delete_data :: "database \<Rightarrow> string \<Rightarrow> pyval dict \<Rightarrow> database \<times> (error + nat)" where
  "delete_data db table_name filters =
     (if \<not> table_exists db table_name then (db, Inl (TableNotFoundError table_name))
      else if filters = [] then (db, Inl MissingFilter)
      else case sql_delete (db_tables db) table_name (delete_conditions filters) of
             Inl e \<Rightarrow> (db, Inl (SqlError e))
           | Inr (ts, rowcount) \<Rightarrow> (commit (changed db ts), Inr rowcount))"

subsection \<open>The configuration store\<close>

text \<open>
  A declared type is one of the four type objects \<open>str\<close>, \<open>int\<close>, \<open>float\<close>,
  \<open>bool\<close>, or any other value (a type name as text, \<open>"auto"\<close>, ...).
\<close>

datatype declared = TypeStr | TypeInt | TypeFloat | TypeBool | Declared pyval

definition normalize_type :: "declared \<Rightarrow> string" where
  "normalize_type col_type =
     (case col_type of
        TypeStr \<Rightarrow> ''str''
      | TypeInt \<Rightarrow> ''int''
      | TypeFloat \<Rightarrow> ''float''
      | TypeBool \<Rightarrow> ''bool''
      | Declared v \<Rightarrow> py_str v)"

fun normalize_loop :: "declared dict \<Rightarrow> string dict \<Rightarrow> string dict" where
  "normalize_loop [] normalized = normalized"
| "normalize_loop ((col_name, col_type) # config) normalized =
     normalize_loop config (dict_set normalized col_name (normalize_type col_type))"

definition normalize_config :: "declared dict \<Rightarrow> string dict" where
  "normalize_config config = normalize_loop config []"

definition save_table_config ::
  "database \<Rightarrow> string \<Rightarrow> declared dict \<Rightarrow> string \<Rightarrow> database \<times> (error + unit)" where
  "save_table_config db table_name config now =
     (let normalized_config = normalize_config config
      in case sql_replace (db_tables db) config_table
                [(''table_name'', table_name),
                 (''config'', json_dumps normalized_config),
                 (''created_at'', now)] of
           Inl e \<Rightarrow> (db, Inl (SqlError e))
         | Inr ts \<Rightarrow> (commit (changed db ts), Inr ()))"

text \<open>\<open>fetchone\<close> takes the first matching row; \<open>None\<close> is "no configuration saved".\<close>

definition get_table_config :: "database \<Rightarrow> string \<Rightarrow> error + string dict option" where
  "get_table_config db table_name =
     (case sql_select_column (db_tables db) config_table ''config'' [Eq ''table_name'' table_name] of
        Inl e \<Rightarrow> Inl (SqlError e)
      | Inr [] \<Rightarrow> Inr None
      | Inr (doc # others) \<Rightarrow>
          (case doc of
             None \<Rightarrow> Inl (Uncaught TypeError)
           | Some text \<Rightarrow>
               (case json_loads text of
                  None \<Rightarrow> Inl JSONDecodeError
                | Some config \<Rightarrow> Inr (Some config))))"

definition delete_table_config :: "database \<Rightarrow> string \<Rightarrow> database \<times> (error + unit)" where
  "delete_table_config db table_name =
     (case sql_delete (db_tables db) config_table [Eq ''table_name'' table_name] of
        Inl e \<Rightarrow> (db, Inl (SqlError e))
      | Inr (ts, rowcount) \<Rightarrow> (commit (changed db ts), Inr ()))"

definition create_table_from_config ::
  "database \<Rightarrow> string \<Rightarrow> declared dict \<Rightarrow> string \<Rightarrow> database \<times> (error + unit)" where
  "create_table_from_config db table_name config now =
     (if table_exists db table_name then (db, Inl (TableAlreadyExistsError table_name))
      else
        let column_defs = map text_column (filter (\<lambda>col_name. col_name \<noteq> ''id'') (keys config))
        in case sql_create_table (db_tables db) table_name (base_columns @ column_defs) of
             Inl e \<Rightarrow> (db, Inl (SqlError e))
           | Inr ts \<Rightarrow>
               (case save_table_config (db\<lparr>db_tables := ts\<rparr>) table_name config now of
                  (db', Inl e) \<Rightarrow> (db', Inl e)
                | (db', Inr u) \<Rightarrow> (commit db', Inr ())))"

subsection \<open>Validation\<close>

text \<open>
  What one key of the row becomes under its expected type: \<open>None\<close> when the key is
  skipped. The handlers around \<open>int\<close> and \<open>float\<close> catch \<open>ValueError\<close> and
  \<open>TypeError\<close>; any other exception passes through.
\<close>

definition convert :: "float_conv \<Rightarrow> string \<Rightarrow> string \<Rightarrow> pyval \<Rightarrow> error + pyval option" where
  "convert fc key expected_type v =
     (if expected_type = ''auto'' \<or> expected_type = ''id'' then Inr None
      else if expected_type = ''str'' then Inr (Some (PStr (py_str v)))
      else if expected_type = ''int'' then
        (case py_int v of
           Inr i \<Rightarrow> Inr (Some (PInt i))
         | Inl ValueError \<Rightarrow> Inl (InvalidType key ''int'')
         | Inl TypeError \<Rightarrow> Inl (InvalidType key ''int'')
         | Inl OverflowError \<Rightarrow> Inl (Uncaught OverflowError))
      else if expected_type = ''float'' then
        (case py_float fc v of
           Inr r \<Rightarrow> Inr (Some (PFloat r))
         | Inl ValueError \<Rightarrow> Inl (InvalidType key ''float'')
         | Inl TypeError \<Rightarrow> Inl (InvalidType key ''float'')
         | Inl OverflowError \<Rightarrow> Inl (Uncaught OverflowError))
      else if expected_type = ''bool'' then
        (case v of
           PStr s \<Rightarrow> Inr (Some (PBool (lower s \<in> set [''true'', ''1'', ''yes''])))
         | _ \<Rightarrow> Inr (Some (PBool (py_bool v))))
      else Inr (Some (PStr (py_str v))))"

fun validate_loop ::
  "float_conv \<Rightarrow> string dict \<Rightarrow> pyval dict \<Rightarrow> pyval dict \<Rightarrow> error + pyval dict" where
  "validate_loop fc config [] validated_data = Inr validated_data"
| "validate_loop fc config ((key, v) # items) validated_data =
     (case dict_get config key of
        Some expected_type \<Rightarrow>
          (case convert fc key expected_type v of
             Inl e \<Rightarrow> Inl e
           | Inr None \<Rightarrow> validate_loop fc config items validated_data
           | Inr (Some v') \<Rightarrow> validate_loop fc config items (dict_set validated_data key v'))
      | None \<Rightarrow> validate_loop fc config items (dict_set validated_data key v))"

definition validate_data_with_config ::
  "float_conv \<Rightarrow> database \<Rightarrow> string \<Rightarrow> pyval dict \<Rightarrow> error + pyval dict" where
  "validate_data_with_config fc db table_name data =
     (case get_table_config db table_name of
        Inl e \<Rightarrow> Inl e
      | Inr None \<Rightarrow> Inr data
      | Inr (Some config) \<Rightarrow>
          if config = [] then Inr data else validate_loop fc config data [])"

subsection \<open>The client\<close>

text \<open>\<open>Client.delete_table\<close>: the table, then its configuration.\<close>

definition client_delete_table :: "database \<Rightarrow> string \<Rightarrow> database \<times> (error + unit)" where
  "client_delete_table db table_name =
     (case delete_table db table_name of
        (db', Inl e) \<Rightarrow> (db', Inl e)
      | (db', Inr u) \<Rightarrow> delete_table_config db' table_name)"


section \<open>Tables of the data model, and two sample states\<close>

text \<open>
  A table of the data model: a relation other than the hidden system relation, whose
  columns are \<open>id\<close> (primary key) and \<open>created_at\<close> (not null) followed by text
  columns that were added later. \<open>create_table\<close> creates such a table and
  \<open>add_columns_if_needed\<close> keeps it one (\<open>create_table_is_table\<close>,
  \<open>add_columns_if_needed_is_table\<close>).
\<close>

definition is_table :: "database \<Rightarrow> string \<Rightarrow> bool" where
  "is_table db n =
     (case map_of (db_tables db) n of
        None \<Rightarrow> False
      | Some t \<Rightarrow>
          n \<noteq> config_table \<and> take 2 (t_cols t) = base_columns
          \<and> list_all (\<lambda>c. \<not> c_notnull c \<and> \<not> c_pk c) (drop 2 (t_cols t)))"

text \<open>The system relation as \<open>_ensure_config_table\<close> creates it.\<close>

definition has_config_table :: "database \<Rightarrow> bool" where
  "has_config_table db =
     (case map_of (db_tables db) config_table of
        None \<Rightarrow> False
      | Some t \<Rightarrow> t_cols t = config_columns)"

definition table_rows :: "database \<Rightarrow> string \<Rightarrow> sqlrow list" where
  "table_rows db n = (case map_of (db_tables db) n of None \<Rightarrow> [] | Some t \<Rightarrow> t_rows t)"


text \<open>A database right after it is opened, and one with a table \<open>users\<close> of two rows.\<close>

definition new_db :: database where
  "new_db = ensure_config_table \<lparr>db_tables = [], db_pending = False\<rparr>"

definition users_db :: database where
  "users_db =
     \<lparr>db_tables =
        [(''_skypy_config'', \<lparr>t_cols = config_columns, t_rows = []\<rparr>),
         (''users'',
          \<lparr>t_cols = base_columns @ [text_column ''name''],
           t_rows =
             [[(''id'', Some ''u1''), (''created_at'', Some ''t1''), (''name'', Some ''Alice'')],
              [(''id'', Some ''u2''), (''created_at'', Some ''t2''), (''name'', Some ''Bob'')]]\<rparr>)],
      db_pending = False\<rparr>"

text \<open>
  The conditions that \<open>delete_data\<close> builds for the filters keyed \<open>id\<close> or
  \<open>created_at\<close>, which \<open>search\<close> leaves out.
\<close>

definition reserved_conditions :: "pyval dict \<Rightarrow> cond list" where
  "reserved_conditions filters =
     delete_conditions (filter (\<lambda>(column, v). column \<in> set reserved) filters)"

subsection \<open>Validation, as the specification words it\<close>

text \<open>
  A value cannot be parsed under a declared type when the type is \<open>int\<close> or
  \<open>float\<close> and the builtin raises \<open>ValueError\<close> or \<open>TypeError\<close>. It overflows
  when the builtin raises \<open>OverflowError\<close> instead. \<open>declared_as config P\<close> holds of
  an entry of the row whose key the configuration declares with a type that \<open>P\<close>
  accepts for the entry's value.
\<close>

definition unparsable :: "float_conv \<Rightarrow> string \<Rightarrow> pyval \<Rightarrow> bool" where
  "unparsable fc ty v =
     ((ty = ''int'' \<and> (py_int v = Inl ValueError \<or> py_int v = Inl TypeError))
      \<or> (ty = ''float'' \<and> (py_float fc v = Inl ValueError \<or> py_float fc v = Inl TypeError)))"

definition overflows :: "float_conv \<Rightarrow> string \<Rightarrow> pyval \<Rightarrow> bool" where
  "overflows fc ty v =
     ((ty = ''int'' \<and> py_int v = Inl OverflowError)
      \<or> (ty = ''float'' \<and> py_float fc v = Inl OverflowError))"

definition declared_as :: "string dict \<Rightarrow> (string \<Rightarrow> pyval \<Rightarrow> bool) \<Rightarrow> string \<times> pyval \<Rightarrow> bool" where
  "declared_as config P kv =
     (case dict_get config (fst kv) of None \<Rightarrow> False | Some ty \<Rightarrow> P ty (snd kv))"


definition coerced_entry :: "float_conv \<Rightarrow> string dict \<Rightarrow> string \<times> pyval \<Rightarrow> pyval dict" where
  "coerced_entry fc config kv =
     (case dict_get config (fst kv) of
        None \<Rightarrow> [kv]
      | Some ty \<Rightarrow>
          (case convert fc (fst kv) ty (snd kv) of
             Inr (Some v') \<Rightarrow> [(fst kv, v')]
           | _ \<Rightarrow> []))"

definition coerced_row :: "float_conv \<Rightarrow> string dict \<Rightarrow> pyval dict \<Rightarrow> pyval dict" where
  "coerced_row fc config data = concat (map (coerced_entry fc config) data)"

text \<open>
  The table \<open>users\<close> with a configuration saved that declares \<open>name\<close> as
  \<open>str\<close> and \<open>age\<close> as \<open>int\<close>.
\<close>

definition typed_db :: database where
  "typed_db = fst (save_table_config users_db ''users''
                 [(''name'', Declared (PStr ''str'')), (''age'', TypeInt)] ''t3'')"

subsection \<open>What \<open>add_columns_if_needed\<close> does to a table\<close>

text \<open>
  The columns the loop adds, and the table with them: each new column is a text column,
  and every row there gets \<open>NULL\<close> in it.
\<close>

definition to_add :: "string list \<Rightarrow> string list \<Rightarrow> string list" where
  "to_add existing columns = filter (\<lambda>c. c \<notin> set existing \<and> c \<notin> set reserved) columns"

definition widened :: "table \<Rightarrow> string list \<Rightarrow> table" where
  "widened t added =
     \<lparr>t_cols = t_cols t @ map text_column added,
      t_rows = map (\<lambda>r. r @ map (\<lambda>c. (c, None)) added) (t_rows t)\<rparr>"

section \<open>Facts about the engine\<close>

lemma matches_append: "matches (cs1 @ cs2) r = (matches cs1 r \<and> matches cs2 r)"
  by (simp add: matches_def)






lemma missing_col_None: "missing_col t cs = None \<longleftrightarrow> set cs \<subseteq> set (col_names t)"
  by (auto simp: missing_col_def find_None_iff)

lemma map_of_put_table:
  "map_of (put_table n t ts) m = (if m = n \<and> map_of ts n \<noteq> None then Some t else map_of ts m)"
  by (induction ts) (auto simp: put_table_def)

lemma cond_cols_filter_condition: "cond_cols (filter_condition k v) = [k]"
  by (simp add: filter_condition_def)

lemma delete_condition_cols: "concat (map cond_cols (delete_conditions fs)) = keys fs"
  by (induction fs) (auto simp: delete_conditions_def keys_def cond_cols_filter_condition)

lemma search_condition_cols:
  "concat (map cond_cols (search_conditions fs)) = filter (\<lambda>k. k \<notin> set reserved) (keys fs)"
  by (induction fs) (auto simp: search_conditions_def keys_def cond_cols_filter_condition)

text \<open>
  A row satisfies the conditions of \<open>delete_data\<close> when it satisfies those of
  \<open>search\<close> and the conditions on \<open>id\<close> and \<open>created_at\<close>.
\<close>

lemma matches_delete_conditions:
  "matches (delete_conditions fs) r
     = (matches (search_conditions fs) r \<and> matches (reserved_conditions fs) r)"
  by (induction fs)
     (auto simp: delete_conditions_def search_conditions_def reserved_conditions_def matches_def)

lemma reserved_conditions_none:
  "set (keys fs) \<inter> set reserved = {} \<Longrightarrow> reserved_conditions fs = []"
  by (induction fs) (auto simp: reserved_conditions_def delete_conditions_def keys_def)

section \<open>Facts about dictionaries and the validation loop\<close>

lemma keys_append [simp]: "keys (a @ b) = keys a @ keys b"
  by (simp add: keys_def)

lemma keys_Cons [simp]: "keys ((k, v) # d) = k # keys d"
  by (simp add: keys_def)

lemma keys_Nil [simp]: "keys [] = []"
  by (simp add: keys_def)

lemma dict_set_new: "k \<notin> set (keys d) \<Longrightarrow> dict_set d k v = d @ [(k, v)]"
  by (induction d) auto

lemma dict_get_dict_set: "dict_get (dict_set d k v) k' = (if k' = k then Some v else dict_get d k')"
  by (induction d) (auto simp: dict_get_def)

lemma convert_cases:
  "convert fc k ty v =
     (if unparsable fc ty v then Inl (InvalidType k ty)
      else if overflows fc ty v then Inl (Uncaught OverflowError)
      else Inr (case convert fc k ty v of Inr r \<Rightarrow> r | Inl e \<Rightarrow> None))"
  by (auto simp: convert_def unparsable_def overflows_def split: sum.splits pyexn.splits pyval.splits)

lemma keys_coerced_entry: "set (keys (coerced_entry fc config kv)) \<subseteq> {fst kv}"
  by (auto simp: coerced_entry_def keys_def split: option.splits sum.splits)


lemma validate_loop_step:
  assumes "\<not> declared_as config (unparsable fc) (k, v)" "\<not> declared_as config (overflows fc) (k, v)"
    and "k \<notin> set (keys acc)"
  shows "validate_loop fc config ((k, v) # items) acc =
           validate_loop fc config items (acc @ coerced_entry fc config (k, v))"
proof (cases "dict_get config k")
  case None
  then show ?thesis using assms(3) by (simp add: coerced_entry_def dict_set_new)
next
  case (Some ty)
  with assms have "\<not> unparsable fc ty v" "\<not> overflows fc ty v"
    by (simp_all add: declared_as_def)
  then obtain r where "convert fc k ty v = Inr r"
    using convert_cases [of fc k ty v] by simp
  then show ?thesis using Some assms(3)
    by (cases r) (simp_all add: coerced_entry_def dict_set_new)
qed

lemma validate_loop_ok:
  assumes "\<forall>kv \<in> set items. \<not> declared_as config (unparsable fc) kv \<and> \<not> declared_as config (overflows fc) kv"
    and "distinct (keys items)" and "set (keys items) \<inter> set (keys acc) = {}"
  shows "validate_loop fc config items acc = Inr (acc @ coerced_row fc config items)"
  using assms
proof (induction items arbitrary: acc)
  case Nil
  then show ?case by (simp add: coerced_row_def)
next
  case (Cons kv items)
  obtain k v where kv: "kv = (k, v)" by (cases kv)
  from Cons.prems kv have k: "k \<notin> set (keys acc)" "k \<notin> set (keys items)"
    by auto
  have "set (keys (coerced_entry fc config (k, v))) \<subseteq> {k}"
    using keys_coerced_entry [of fc config "(k, v)"] by simp
  with Cons.prems k kv have d: "set (keys items) \<inter> set (keys (acc @ coerced_entry fc config (k, v))) = {}"
    by auto
  have "validate_loop fc config (kv # items) acc =
      validate_loop fc config items (acc @ coerced_entry fc config (k, v))"
    unfolding kv using Cons.prems k kv by (intro validate_loop_step) auto
  also have "\<dots> = Inr ((acc @ coerced_entry fc config (k, v)) @ coerced_row fc config items)"
    using Cons.prems d kv by (intro Cons.IH) auto
  finally show ?case by (simp add: kv coerced_row_def)
qed




lemma validate_loop_Inr:
  "validate_loop fc config items acc = Inr res \<Longrightarrow>
     \<forall>kv \<in> set items. \<not> declared_as config (unparsable fc) kv \<and> \<not> declared_as config (overflows fc) kv"
proof (induction items arbitrary: acc)
  case Nil
  then show ?case by simp
next
  case (Cons kv items)
  obtain k v where kv: "kv = (k, v)" by (cases kv)
  show ?case
  proof (cases "dict_get config k")
    case None
    with Cons kv show ?thesis by (auto simp: declared_as_def)
  next
    case (Some ty)
    with Cons.prems kv obtain r where r: "convert fc k ty v = Inr r"
      by (auto split: sum.splits)
    with convert_cases [of fc k ty v] have "\<not> unparsable fc ty v" "\<not> overflows fc ty v"
      by (auto split: if_splits)
    moreover from Cons.prems kv Some r obtain acc' where "validate_loop fc config items acc' = Inr res"
      by (cases r) auto
    ultimately show ?thesis using Cons.IH kv Some by (auto simp: declared_as_def)
  qed
qed

lemma dict_get_Nil [simp]: "dict_get [] k = None"
  by (simp add: dict_get_def)

lemma dict_get_Cons [simp]:
  "dict_get ((k, v) # d) k' = (if k' = k then Some v else dict_get d k')"
  by (simp add: dict_get_def)

lemma dict_get_append:
  "dict_get (a @ b) k = (case dict_get a k of None \<Rightarrow> dict_get b k | Some v \<Rightarrow> Some v)"
  by (auto simp: dict_get_def map_add_def split: option.splits)

lemma dict_get_coerced_entry_other:
  "k \<noteq> fst kv \<Longrightarrow> dict_get (coerced_entry fc config kv) k = None"
  by (cases kv) (auto simp: coerced_entry_def split: option.splits sum.splits)

lemma dict_get_coerced_row_None:
  "k \<notin> set (keys data) \<Longrightarrow> dict_get (coerced_row fc config data) k = None"
proof (induction data)
  case Nil
  then show ?case by (simp add: coerced_row_def)
next
  case (Cons kv data)
  then have "k \<noteq> fst kv" "k \<notin> set (keys data)" by (auto simp: keys_def)
  with Cons.IH dict_get_coerced_entry_other [of k kv fc config] show ?case
    by (simp add: coerced_row_def dict_get_append)
qed

lemma dict_get_coerced_row:
  "distinct (keys data) \<Longrightarrow> dict_get data k = Some v \<Longrightarrow>
     dict_get (coerced_row fc config data) k = dict_get (coerced_entry fc config (k, v)) k"
proof (induction data)
  case Nil
  then show ?case by simp
next
  case (Cons kv data)
  obtain k' v' where kv: "kv = (k', v')" by (cases kv)
  show ?case
  proof (cases "k' = k")
    case True
    with Cons.prems kv have v: "v' = v" and "k \<notin> set (keys data)"
      by auto
    then have "dict_get (coerced_row fc config data) k = None"
      by (simp add: dict_get_coerced_row_None)
    then have "dict_get (coerced_entry fc config (k, v) @ coerced_row fc config data) k
        = dict_get (coerced_entry fc config (k, v)) k"
      by (simp add: dict_get_append split: option.splits)
    then show ?thesis using True kv v
      by (simp add: coerced_row_def)
  next
    case False
    then have "dict_get (coerced_entry fc config (k', v')) k = None"
      by (simp add: dict_get_coerced_entry_other)
    with False Cons kv show ?thesis
      by (simp add: coerced_row_def dict_get_append)
  qed
qed

section \<open>Facts about insertion\<close>

lemma text_column_eq: "\<lparr>c_name = c, c_notnull = False, c_pk = False\<rparr> = text_column c"
  by (simp add: text_column_def)

lemma col_names_simp [simp]: "col_names \<lparr>t_cols = cs, t_rows = rs\<rparr> = map c_name cs"
  by (simp add: col_names_def)

lemma c_name_text_column [simp]: "c_name (text_column c) = c"
  by (simp add: text_column_def)

lemma widened_Nil: "widened t [] = t"
  by (simp add: widened_def)

lemma widened_Cons:
  "widened \<lparr>t_cols = t_cols t @ [text_column c], t_rows = map (\<lambda>r. r @ [(c, None)]) (t_rows t)\<rparr> cs
     = widened t (c # cs)"
  by (simp add: widened_def)

lemma add_columns_loop_result:
  assumes "map_of ts n = Some t" and "distinct columns"
    and "\<forall>c \<in> set (to_add existing columns). c \<notin> set (col_names t)"
  shows "\<exists>ts'. add_columns_loop ts n existing columns = (ts', None)
           \<and> map_of ts' n = Some (widened t (to_add existing columns))
           \<and> (\<forall>m. m \<noteq> n \<longrightarrow> map_of ts' m = map_of ts m)"
  using assms
proof (induction columns arbitrary: ts t)
  case Nil
  then show ?case by (simp add: to_add_def widened_Nil)
next
  case (Cons c columns)
  show ?case
  proof (cases "c \<notin> set existing \<and> c \<notin> set reserved")
    case False
    then have e: "to_add existing (c # columns) = to_add existing columns"
      by (auto simp: to_add_def)
    from Cons.prems have "\<exists>ts'. add_columns_loop ts n existing columns = (ts', None)
           \<and> map_of ts' n = Some (widened t (to_add existing columns))
           \<and> (\<forall>m. m \<noteq> n \<longrightarrow> map_of ts' m = map_of ts m)"
      by (intro Cons.IH) (auto simp: e)
    with False show ?thesis by (auto simp: e)
  next
    case True
    then have e: "to_add existing (c # columns) = c # to_add existing columns"
      by (auto simp: to_add_def)
    let ?t1 = "\<lparr>t_cols = t_cols t @ [text_column c], t_rows = map (\<lambda>r. r @ [(c, None)]) (t_rows t)\<rparr>"
    let ?ts1 = "put_table n ?t1 ts"
    from Cons.prems e have new: "c \<notin> set (col_names t)" by simp
    with Cons.prems(1) have a: "sql_add_column ts n c = Inr ?ts1"
      by (simp add: sql_add_column_def text_column_eq)
    have m: "map_of ?ts1 n = Some ?t1"
      using Cons.prems(1) by (simp add: map_of_put_table)
    have "\<forall>c' \<in> set (to_add existing columns). c' \<notin> set (col_names ?t1)"
      using Cons.prems e by (auto simp: col_names_def to_add_def)
    with m Cons.prems(2)
    have "\<exists>ts'. add_columns_loop ?ts1 n existing columns = (ts', None)
           \<and> map_of ts' n = Some (widened ?t1 (to_add existing columns))
           \<and> (\<forall>m. m \<noteq> n \<longrightarrow> map_of ts' m = map_of ?ts1 m)"
      by (intro Cons.IH) auto
    then show ?thesis
      using True a by (auto simp: e widened_Cons map_of_put_table)
  qed
qed

lemma cell_of_append_null [simp]:
  "cell_of (r @ map (\<lambda>c. (c, None)) cs) c' = cell_of r c'"
  by (induction cs) (auto simp: cell_of_def map_add_def split: option.splits dest: map_of_SomeD)



lemma keys_dict_set:
  "keys (dict_set d k v) = (if k \<in> set (keys d) then keys d else keys d @ [k])"
  by (induction d) auto


lemma is_tableD:
  assumes "is_table db n"
  obtains t extra where "map_of (db_tables db) n = Some t" "t_cols t = base_columns @ extra"
    "\<forall>c \<in> set extra. \<not> c_notnull c \<and> \<not> c_pk c" "n \<noteq> config_table"
proof -
  from assms obtain t where t: "map_of (db_tables db) n = Some t" "n \<noteq> config_table"
    "take 2 (t_cols t) = base_columns" "list_all (\<lambda>c. \<not> c_notnull c \<and> \<not> c_pk c) (drop 2 (t_cols t))"
    by (auto simp: is_table_def split: option.splits)
  then have "t_cols t = base_columns @ drop 2 (t_cols t)"
    by (metis append_take_drop_id)
  with t that show ?thesis by (auto simp: list_all_iff)
qed



lemma dict_get_Some_keys: "dict_get d k = Some v \<Longrightarrow> k \<in> set (keys d)"
  by (induction d) (auto split: if_splits)




lemma add_columns_if_needed_result:
  assumes t: "map_of (db_tables db) n = Some t" and "distinct columns"
  shows "\<exists>db1. add_columns_if_needed db n columns = (db1, Inr ())
           \<and> map_of (db_tables db1) n = Some (widened t (to_add (col_names t) columns))"
proof -
  have "\<forall>c \<in> set (to_add (col_names t) columns). c \<notin> set (col_names t)"
    by (simp add: to_add_def)
  from add_columns_loop_result [OF t assms(2) this]
  obtain ts' where "add_columns_loop (db_tables db) n (col_names t) columns = (ts', None)"
    and "map_of ts' n = Some (widened t (to_add (col_names t) columns))"
    by blast
  then show ?thesis
    using t by (simp add: add_columns_if_needed_def get_table_columns_def commit_def)
qed


lemma insert_data_row:
  assumes "table_exists db n"
    and d1: "data1 = (if generate_id then dict_set data ''id'' (PStr uuid) else data)"
    and d2: "data2 = (if ''created_at'' \<notin> set (keys data1)
                      then dict_set data1 ''created_at'' (PStr now) else data1)"
  shows "fst (snd (insert_data db n data generate_id uuid now)) = data2"
proof -
  define cta where "cta = filter (\<lambda>col. col \<notin> set reserved) (keys data2)"
  obtain db1 added where
    x: "(if cta \<noteq> [] then add_columns_if_needed db n cta else (db, Inr ())) = (db1, added)"
    by (metis surj_pair)
  show ?thesis
    unfolding insert_data_def Let_def d1 [symmetric] d2 [symmetric] cta_def [symmetric]
    using assms(1) x by (simp split: sum.splits)
qed

section \<open>Facts about creating and dropping tables\<close>

lemma first_dup_created_at:
  assumes "''created_at'' \<in> set ks"
  shows "first_dup (map c_name (base_columns @ map text_column (filter (\<lambda>k. k \<noteq> ''id'') ks)))
           = Some ''created_at''"
proof -
  have "map c_name (base_columns @ map text_column (filter (\<lambda>k. k \<noteq> ''id'') ks))
      = ''id'' # ''created_at'' # filter (\<lambda>k. k \<noteq> ''id'') ks"
    by (simp add: base_columns_def comp_def)
  moreover have "''created_at'' \<in> set (filter (\<lambda>k. k \<noteq> ''id'') ks)"
    using assms by simp
  ultimately show ?thesis by simp
qed

lemma map_of_drop:
  "map_of (filter (\<lambda>(m, u). m \<noteq> n) ts) k = (if k = n then None else map_of ts k)"
  by (induction ts) auto

section \<open>Facts about the configuration documents\<close>





















section \<open>The states that the layer creates\<close>

text \<open>
  Opening a database puts the system relation in place, \<open>create_table\<close> creates
  a table of the data model with the two columns \<open>id\<close> and \<open>created_at\<close>, and
  \<open>add_columns_if_needed\<close> leaves a table of the data model one.
\<close>

lemma ensure_config_table_creates:
  "\<not> table_exists db config_table \<Longrightarrow> has_config_table (ensure_config_table db)"
  by (simp add: ensure_config_table_def has_config_table_def commit_def table_exists_def
      map_add_def)

lemma ensure_config_table_keeps:
  "has_config_table db \<Longrightarrow> has_config_table (ensure_config_table db)"
  by (auto simp: ensure_config_table_def has_config_table_def commit_def table_exists_def
      split: option.splits)

lemma new_db_has_config_table: "has_config_table new_db"
  by code_simp

lemma create_table_is_table:
  assumes "\<not> table_exists db n" and "n \<noteq> config_table"
  shows "\<exists>db'. create_table db n = (db', Inr ()) \<and> is_table db' n
           \<and> get_table_columns db' n = Inr [''id'', ''created_at'']"
proof -
  have "first_dup (map c_name base_columns) = None"
    by (simp add: base_columns_def)
  then show ?thesis
    using assms
    by (simp add: create_table_def sql_create_table_def table_exists_def is_table_def commit_def
        get_table_columns_def col_names_def map_add_def base_columns_def)
qed

lemma add_columns_if_needed_is_table:
  assumes "is_table db n" and "distinct columns"
  shows "\<exists>db'. add_columns_if_needed db n columns = (db', Inr ()) \<and> is_table db' n"
proof -
  from assms(1) obtain t extra where t: "map_of (db_tables db) n = Some t"
    and cols: "t_cols t = base_columns @ extra"
    and extra: "\<forall>c \<in> set extra. \<not> c_notnull c \<and> \<not> c_pk c" and n: "n \<noteq> config_table"
    by (rule is_tableD)
  from add_columns_if_needed_result [OF t assms(2)]
  obtain db' where a: "add_columns_if_needed db n columns = (db', Inr ())"
    and t': "map_of (db_tables db') n = Some (widened t (to_add (col_names t) columns))"
    by blast
  have "length base_columns = 2" by (simp add: base_columns_def)
  then have "is_table db' n"
    using t' n extra
    by (auto simp: is_table_def widened_def cols list_all_iff text_column_def)
  with a show ?thesis by blast
qed

text \<open>
  \<open>Client.delete_table\<close> removes the configuration after the table: the cascade is
  the client's, in two calls.
\<close>

lemma client_delete_table_removes_config:
  assumes "is_table db n" and "has_config_table db"
  shows "\<exists>db'. client_delete_table db n = (db', Inr ())
           \<and> \<not> table_exists db' n \<and> get_table_config db' n = Inr None"
proof -
  from assms(1) obtain u where u: "map_of (db_tables db) n = Some u" and n: "n \<noteq> config_table"
    by (auto simp: is_table_def split: option.splits)
  from assms(2) obtain t where t: "map_of (db_tables db) config_table = Some t"
    and cols: "t_cols t = config_columns"
    by (auto simp: has_config_table_def split: option.splits)
  define db1 where "db1 = commit (db\<lparr>db_tables := filter (\<lambda>(m, u). m \<noteq> n) (db_tables db)\<rparr>)"
  have d: "delete_table db n = (db1, Inr ())"
    using u by (simp add: delete_table_def table_exists_def sql_drop_table_def db1_def)
  have t1: "map_of (db_tables db1) config_table = Some t"
    using t n by (simp add: db1_def commit_def map_of_drop)
  define t' where "t' = t\<lparr>t_rows := filter (\<lambda>r. \<not> matches [Eq ''table_name'' n] r) (t_rows t)\<rparr>"
  define db2 where "db2 = commit (changed db1 (put_table config_table t' (db_tables db1)))"
  have m: "missing_col t [''table_name''] = None" "missing_col t' [''config'', ''table_name''] = None"
    by (simp_all add: missing_col_def col_names_def cols config_columns_def t'_def)
  have c: "delete_table_config db1 n = (db2, Inr ())"
    using t1 m by (simp add: delete_table_config_def sql_delete_def db2_def t'_def)
  have t2: "map_of (db_tables db2) config_table = Some t'"
    using t1 by (simp add: db2_def commit_def changed_def map_of_put_table)
  have "filter (matches [Eq ''table_name'' n]) (t_rows t') = []"
    by (simp add: t'_def)
  then have g: "get_table_config db2 n = Inr None"
    using t2 m by (simp add: get_table_config_def sql_select_column_def)
  have "map_of (db_tables db2) n = None"
    using n by (simp add: db2_def db1_def commit_def changed_def map_of_put_table map_of_drop)
  then have e: "\<not> table_exists db2 n" by (simp add: table_exists_def)
  from d c g e show ?thesis by (simp add: client_delete_table_def)
qed

section \<open>Search: a filter whose value is the empty list\<close>




section \<open>Delete: the rows removed, against the rows that search returns\<close>

text \<open>
  C2 (as the code has it). \<open>delete_data\<close> builds one condition for every filter
  entry, the entries keyed \<open>id\<close> and \<open>created_at\<close> included: an equality for a
  scalar, \<open>IN\<close> for a non-empty list, all joined by \<open>AND\<close>. \<open>search\<close> leaves the
  entries keyed \<open>id\<close> and \<open>created_at\<close> out. So when a delete succeeds, the search
  with the same filters and no index succeeds too, and the rows removed are the rows of
  its result that also satisfy the conditions on \<open>id\<close> and \<open>created_at\<close>; they are
  exactly the rows of the result when no filter is keyed \<open>id\<close> or \<open>created_at\<close>.
\<close>

theorem delete_data_rows:
  assumes "delete_data db n filters = (db', Inr rowcount)"
  shows "\<exists>rs. search db n None filters = Inr rs
      \<and> table_rows db' n =
          filter (\<lambda>r. \<not> (r \<in> set rs \<and> matches (reserved_conditions filters) r)) (table_rows db n)
      \<and> rowcount = length (filter (matches (reserved_conditions filters)) rs)
      \<and> (set (keys filters) \<inter> set reserved = {} \<longrightarrow>
           table_rows db' n = filter (\<lambda>r. r \<notin> set rs) (table_rows db n) \<and> rowcount = length rs)"
proof -
  from assms obtain t where t: "map_of (db_tables db) n = Some t"
    by (auto simp: delete_data_def table_exists_def split: if_splits)
  from assms t have cols: "missing_col t (keys filters) = None"
    and db': "db' = commit (changed db
        (put_table n (t\<lparr>t_rows := filter (\<lambda>r. \<not> matches (delete_conditions filters) r) (t_rows t)\<rparr>)
           (db_tables db)))"
    and cnt: "rowcount = length (filter (matches (delete_conditions filters)) (t_rows t))"
    by (auto simp: delete_data_def table_exists_def sql_delete_def delete_condition_cols
        split: if_splits option.splits sum.splits)
  define rs where "rs = filter (matches (search_conditions filters)) (t_rows t)"
  from cols have "missing_col t (filter (\<lambda>k. k \<notin> set reserved) (keys filters)) = None"
    by (auto simp: missing_col_None)
  then have s: "search db n None filters = Inr rs"
    using t by (simp add: search_def table_exists_def index_conditions_def sql_select_def
        search_condition_cols rs_def)
  have rows': "table_rows db' n = filter (\<lambda>r. \<not> matches (delete_conditions filters) r) (t_rows t)"
    using t by (simp add: db' table_rows_def commit_def changed_def map_of_put_table)
  have rows: "table_rows db n = t_rows t"
    using t by (simp add: table_rows_def)
  have a: "table_rows db' n =
      filter (\<lambda>r. \<not> (r \<in> set rs \<and> matches (reserved_conditions filters) r)) (table_rows db n)"
    unfolding rows' rows rs_def
    by (rule filter_cong) (auto simp: matches_delete_conditions)
  have b: "rowcount = length (filter (matches (reserved_conditions filters)) rs)"
  proof -
    have "matches (delete_conditions filters) =
        (\<lambda>r. matches (search_conditions filters) r \<and> matches (reserved_conditions filters) r)"
      by (rule ext) (rule matches_delete_conditions)
    then show ?thesis
      unfolding cnt rs_def by (simp add: conj_commute)
  qed
  have c: "table_rows db' n = filter (\<lambda>r. r \<notin> set rs) (table_rows db n) \<and> rowcount = length rs"
    if "set (keys filters) \<inter> set reserved = {}"
    using a b reserved_conditions_none [OF that] by (simp add: matches_def)
  from s a b c show ?thesis by blast
qed

text \<open>
  Deleting the rows named Alice from \<open>users\<close> removes the one row that the search for
  \<open>name = Alice\<close> returns.
\<close>

theorem delete_data_rows_witness:
  "snd (delete_data users_db ''users'' [(''name'', PStr ''Alice'')]) = Inr 1
   \<and> search users_db ''users'' None [(''name'', PStr ''Alice'')] =
        Inr [[(''id'', Some ''u1''), (''created_at'', Some ''t1''), (''name'', Some ''Alice'')]]
   \<and> table_rows (fst (delete_data users_db ''users'' [(''name'', PStr ''Alice'')])) ''users'' =
        filter (\<lambda>r. r \<notin> set [[(''id'', Some ''u1''), (''created_at'', Some ''t1''), (''name'', Some ''Alice'')]])
          (table_rows users_db ''users'')"
proof -
  have a: "snd (delete_data users_db ''users'' [(''name'', PStr ''Alice'')]) = Inr 1"
    by code_simp
  then have b: "delete_data users_db ''users'' [(''name'', PStr ''Alice'')] =
      (fst (delete_data users_db ''users'' [(''name'', PStr ''Alice'')]), Inr 1)"
    by (metis prod.collapse)
  have c: "search users_db ''users'' None [(''name'', PStr ''Alice'')] =
        Inr [[(''id'', Some ''u1''), (''created_at'', Some ''t1''), (''name'', Some ''Alice'')]]"
    by code_simp
  have d: "set (keys [(''name'', PStr ''Alice'')]) \<inter> set reserved = {}"
    by (simp add: keys_def reserved_def)
  from delete_data_rows [OF b] a c d show ?thesis by auto
qed

text \<open>
  Deleting by \<open>id = u1\<close> removes one row of \<open>users\<close>; the search with the same
  filter ignores it and returns both rows.
\<close>

theorem delete_data_rows_counterexample:
  "snd (delete_data users_db ''users'' [(''id'', PStr ''u1'')]) = Inr 1
   \<and> table_rows (fst (delete_data users_db ''users'' [(''id'', PStr ''u1'')])) ''users'' =
        [[(''id'', Some ''u2''), (''created_at'', Some ''t2''), (''name'', Some ''Bob'')]]
   \<and> search users_db ''users'' None [(''id'', PStr ''u1'')] =
       Inr [[(''id'', Some ''u1''), (''created_at'', Some ''t1''), (''name'', Some ''Alice'')],
            [(''id'', Some ''u2''), (''created_at'', Some ''t2''), (''name'', Some ''Bob'')]]"
  by code_simp

section \<open>Validation: the columns \<open>id\<close> and \<open>created_at\<close>\<close>

text \<open>
  C3 (as the code has it). \<open>validate_data_with_config\<close> has no case for the
  reserved columns: \<open>id\<close> and \<open>created_at\<close> go through the loop like every other
  key. When validation succeeds on a row that has one of them, its value is the input
  value only if the saved configuration declares no type for that key; if the
  configuration declares a type, the result holds what that type makes of the value:
  nothing for \<open>auto\<close> and \<open>id\<close>, the converted value otherwise.
\<close>

theorem validate_reserved_columns:
  assumes "get_table_config db n = Inr (Some config)" and "config \<noteq> []"
    and "distinct (keys data)"
    and "validate_data_with_config fc db n data = Inr res"
    and "k \<in> set reserved" and "dict_get data k = Some v"
  shows "(dict_get config k = None \<longrightarrow> dict_get res k = Some v)
       \<and> (\<forall>ty. dict_get config k = Some ty \<longrightarrow> convert fc k ty v = Inr (dict_get res k))"
proof -
  have v: "validate_loop fc config data [] = Inr res"
    using assms(1,2,4) by (simp add: validate_data_with_config_def)
  from validate_loop_Inr [OF v]
  have ok: "\<forall>kv \<in> set data. \<not> declared_as config (unparsable fc) kv \<and> \<not> declared_as config (overflows fc) kv" .
  with assms(3) have "validate_loop fc config data [] = Inr ([] @ coerced_row fc config data)"
    by (intro validate_loop_ok) auto
  with v have res: "res = coerced_row fc config data" by simp
  have g: "dict_get res k = dict_get (coerced_entry fc config (k, v)) k"
    unfolding res using assms(3,6) by (rule dict_get_coerced_row)
  have "(k, v) \<in> set data"
    using assms(6) by (auto simp: dict_get_def dest: map_of_SomeD)
  with ok have nb: "\<not> declared_as config (unparsable fc) (k, v)" "\<not> declared_as config (overflows fc) (k, v)"
    by auto
  show ?thesis
  proof (intro conjI impI allI)
    assume "dict_get config k = None"
    then show "dict_get res k = Some v" by (simp add: g coerced_entry_def)
  next
    fix ty assume ty: "dict_get config k = Some ty"
    with nb have "\<not> unparsable fc ty v" "\<not> overflows fc ty v" by (simp_all add: declared_as_def)
    then obtain r where r: "convert fc k ty v = Inr r"
      using convert_cases [of fc k ty v] by simp
    then show "convert fc k ty v = Inr (dict_get res k)"
      using ty by (cases r) (simp_all add: g coerced_entry_def)
  qed
qed

text \<open>
  With the configuration of \<open>typed_db\<close>, which declares nothing for \<open>id\<close>, the
  value \<open>7\<close> of \<open>id\<close> stays as it is.
\<close>

theorem validate_reserved_columns_witness:
  "\<forall>fc. get_table_config typed_db ''users'' = Inr (Some [(''name'', ''str''), (''age'', ''int'')])
     \<and> validate_data_with_config fc typed_db ''users'' [(''id'', PInt 7), (''name'', PStr ''Alice'')]
         = Inr [(''id'', PInt 7), (''name'', PStr ''Alice'')]
     \<and> dict_get [(''id'', PInt 7), (''name'', PStr ''Alice'')] ''id'' = Some (PInt 7)"
proof
  fix fc
  let ?config = "[(''name'', ''str''), (''age'', ''int'')]"
  let ?data = "[(''id'', PInt 7), (''name'', PStr ''Alice'')]"
  have c: "get_table_config typed_db ''users'' = Inr (Some ?config)"
    by code_simp
  have n: "?config \<noteq> []" by simp
  have d: "distinct (keys ?data)" by (simp add: keys_def)
  have v: "validate_data_with_config fc typed_db ''users'' ?data = Inr ?data"
    using c by (simp add: validate_data_with_config_def dict_get_def convert_def py_str_def)
  have r: "''id'' \<in> set reserved" by (simp add: reserved_def)
  have g: "dict_get ?data ''id'' = Some (PInt 7)" by (simp add: dict_get_def)
  from validate_reserved_columns [OF c n d v r g] c v
  show "get_table_config typed_db ''users'' = Inr (Some ?config)
     \<and> validate_data_with_config fc typed_db ''users'' ?data = Inr ?data
     \<and> dict_get ?data ''id'' = Some (PInt 7)"
    by (simp add: dict_get_def)
qed

text \<open>
  With \<open>created_at\<close> declared \<open>int\<close>, the text \<open>5\<close> given for \<open>created_at\<close>
  comes back as the number \<open>5\<close>.
\<close>

theorem validate_reserved_columns_counterexample:
  "\<forall>fc. validate_data_with_config fc
       (fst (save_table_config users_db ''users'' [(''created_at'', TypeInt)] ''t3''))
       ''users'' [(''created_at'', PStr ''5'')] = Inr [(''created_at'', PInt 5)]"
proof
  fix fc
  show "validate_data_with_config fc
       (fst (save_table_config users_db ''users'' [(''created_at'', TypeInt)] ''t3''))
       ''users'' [(''created_at'', PStr ''5'')] = Inr [(''created_at'', PInt 5)]"
    by code_simp
qed

section \<open>Validation: when a value cannot be parsed\<close>




text \<open>
  An \<open>OverflowError\<close> is not among the exceptions the handlers catch: converting the
  integer \<open>10 ^ 400\<close> to a float raises it, and it leaves validation as it is, without
  the column's name.
\<close>

theorem validate_overflow_escapes:
  "validate_data_with_config fc
       (fst (save_table_config users_db ''users'' [(''x'', TypeFloat)] ''t3''))
       ''users'' [(''x'', PInt (10 ^ 400))] = Inl (Uncaught OverflowError)"
  by code_simp

section \<open>Insert: the generated identifier and the timestamp\<close>




section \<open>Insert without an identifier\<close>




section \<open>Insert: the caller's dictionary\<close>

text \<open>
  C10. \<open>insert_data\<close> assigns into the dictionary it was given. After a call with
  \<open>generate_id\<close> true that returns, the caller's dictionary has the generated
  identifier under \<open>id\<close>, the timestamp under \<open>created_at\<close> if it had no
  \<open>created_at\<close> before, and every other entry as before.
\<close>

theorem insert_data_mutates_row:
  assumes "insert_data db n data True uuid now = (db', data', Inr result)"
  shows "dict_get data' ''id'' = Some (PStr uuid)
       \<and> (''created_at'' \<notin> set (keys data) \<longrightarrow> dict_get data' ''created_at'' = Some (PStr now))
       \<and> (\<forall>k v. dict_get data k = Some v \<and> k \<noteq> ''id'' \<longrightarrow> dict_get data' k = Some v)"
proof -
  from assms have ex: "table_exists db n"
    by (auto simp: insert_data_def split: if_splits)
  have "fst (snd (insert_data db n data True uuid now)) =
        (if ''created_at'' \<notin> set (keys (dict_set data ''id'' (PStr uuid)))
               then dict_set (dict_set data ''id'' (PStr uuid)) ''created_at'' (PStr now)
               else dict_set data ''id'' (PStr uuid))"
    by (rule insert_data_row [OF ex]) simp_all
  with assms
  have d: "data' = (if ''created_at'' \<notin> set (keys (dict_set data ''id'' (PStr uuid)))
               then dict_set (dict_set data ''id'' (PStr uuid)) ''created_at'' (PStr now)
               else dict_set data ''id'' (PStr uuid))"
    by simp
  have a: "dict_get data' ''id'' = Some (PStr uuid)"
    by (simp add: d dict_get_dict_set)
  have b: "dict_get data' ''created_at'' = Some (PStr now)" if "''created_at'' \<notin> set (keys data)"
    using that by (simp add: d dict_get_dict_set keys_dict_set)
  have c: "dict_get data' k = Some v" if "dict_get data k = Some v" "k \<noteq> ''id''" for k v
    using that dict_get_Some_keys [OF that(1)]
    by (auto simp: d dict_get_dict_set keys_dict_set)
  from a b c show ?thesis by blast
qed

text \<open>
  After inserting \<open>name = Carol\<close> into \<open>users\<close>, the dictionary holds
  \<open>id = u3\<close> and \<open>created_at = t3\<close> beside \<open>name = Carol\<close>.
\<close>

theorem insert_data_mutates_row_witness:
  "snd (snd (insert_data users_db ''users'' [(''name'', PStr ''Carol'')] True ''u3'' ''t3''))
        = Inr (PStr ''u3'')
   \<and> dict_get (fst (snd (insert_data users_db ''users'' [(''name'', PStr ''Carol'')]
                  True ''u3'' ''t3''))) ''id'' = Some (PStr ''u3'')
   \<and> dict_get (fst (snd (insert_data users_db ''users'' [(''name'', PStr ''Carol'')]
                  True ''u3'' ''t3''))) ''created_at'' = Some (PStr ''t3'')
   \<and> dict_get (fst (snd (insert_data users_db ''users'' [(''name'', PStr ''Carol'')]
                  True ''u3'' ''t3''))) ''name'' = Some (PStr ''Carol'')"
proof -
  let ?x = "insert_data users_db ''users'' [(''name'', PStr ''Carol'')] True ''u3'' ''t3''"
  have a: "snd (snd ?x) = Inr (PStr ''u3'')" by code_simp
  then have b: "?x = (fst ?x, fst (snd ?x), Inr (PStr ''u3''))"
    by (metis prod.collapse)
  have c: "''created_at'' \<notin> set (keys [(''name'', PStr ''Carol'')])" by (simp add: keys_def)
  have d: "dict_get [(''name'', PStr ''Carol'')] ''name'' = Some (PStr ''Carol'')" by simp
  from insert_data_mutates_row [OF b] a c d show ?thesis by auto
qed

section \<open>A configuration with the key \<open>created_at\<close>\<close>

text \<open>
  C9. \<open>create_table_from_config\<close> leaves out only the key \<open>id\<close> when it builds
  the column definitions. For a table that does not exist yet and a configuration with
  the key \<open>created_at\<close>, the \<open>CREATE TABLE\<close> statement defines \<open>created_at\<close>
  twice and the engine rejects it: the call raises that error, and the database is as
  before, with neither the table nor a saved configuration.
\<close>

theorem create_table_from_config_created_at:
  assumes "\<not> table_exists db n" and "''created_at'' \<in> set (keys config)"
  shows "create_table_from_config db n config now
           = (db, Inl (SqlError (DuplicateColumn ''created_at'')))"
  using assms first_dup_created_at [of "keys config"]
  by (simp add: create_table_from_config_def sql_create_table_def table_exists_def)

text \<open>
  Creating \<open>orders\<close> from a configuration with the keys \<open>item\<close> and
  \<open>created_at\<close> fails and leaves \<open>users_db\<close> as it is.
\<close>

theorem create_table_from_config_created_at_witness:
  "\<not> table_exists users_db ''orders''
   \<and> ''created_at'' \<in> set (keys [(''item'', TypeStr), (''created_at'', TypeStr)])
   \<and> create_table_from_config users_db ''orders'' [(''item'', TypeStr), (''created_at'', TypeStr)] ''t3''
        = (users_db, Inl (SqlError (DuplicateColumn ''created_at'')))"
proof -
  have a: "\<not> table_exists users_db ''orders''" by code_simp
  have b: "''created_at'' \<in> set (keys [(''item'', TypeStr), (''created_at'', TypeStr)])"
    by (simp add: keys_def)
  from create_table_from_config_created_at [OF a b, of "''t3''"] a b show ?thesis by simp
qed

section \<open>Dropping a table keeps its configuration\<close>

text \<open>
  C7 (as the code has it). \<open>Database.delete_table\<close> on an existing table other than
  the hidden system relation drops the table and nothing else: the table is gone
  afterwards, and \<open>get_table_config\<close> returns for every name, the dropped table's
  among them, what it returned before. (Removing the configuration is a second call,
  which \<open>Client.delete_table\<close> makes: see \<open>client_delete_table_removes_config\<close>.)
\<close>

theorem delete_table_keeps_config:
  assumes "table_exists db n" and "n \<noteq> config_table"
  shows "\<exists>db'. delete_table db n = (db', Inr ())
           \<and> \<not> table_exists db' n
           \<and> (\<forall>m. get_table_config db' m = get_table_config db m)"
proof -
  define db' where "db' = commit (db\<lparr>db_tables := filter (\<lambda>(m, u). m \<noteq> n) (db_tables db)\<rparr>)"
  have a: "delete_table db n = (db', Inr ())"
    using assms(1) by (auto simp: delete_table_def table_exists_def sql_drop_table_def db'_def)
  have b: "\<not> table_exists db' n"
    by (simp add: table_exists_def db'_def commit_def map_of_drop)
  have "map_of (db_tables db') config_table = map_of (db_tables db) config_table"
    using assms(2) by (simp add: db'_def commit_def map_of_drop)
  then have c: "get_table_config db' m = get_table_config db m" for m
    by (simp add: get_table_config_def sql_select_column_def)
  from a b c show ?thesis by blast
qed

text \<open>
  After \<open>users\<close> is dropped from \<open>typed_db\<close>, its configuration is still the
  one that was saved.
\<close>

theorem delete_table_keeps_config_witness:
  "table_exists typed_db ''users'' \<and> ''users'' \<noteq> config_table
   \<and> snd (delete_table typed_db ''users'') = Inr ()
   \<and> get_table_config typed_db ''users'' = Inr (Some [(''name'', ''str''), (''age'', ''int'')])
   \<and> get_table_config (fst (delete_table typed_db ''users'')) ''users''
        = Inr (Some [(''name'', ''str''), (''age'', ''int'')])"
proof -
  have a: "table_exists typed_db ''users''" by code_simp
  have n: "''users'' \<noteq> config_table" by (simp add: config_table_def)
  have b: "get_table_config typed_db ''users'' = Inr (Some [(''name'', ''str''), (''age'', ''int'')])"
    by code_simp
  from delete_table_keeps_config [OF a n] a n b show ?thesis by auto
qed

text \<open>
  The system relation exists as a table, \<open>delete_table\<close> accepts its name, and once
  it is dropped \<open>get_table_config\<close> no longer returns what it returned before: it
  fails with the engine's error.
\<close>

theorem delete_table_keeps_config_counterexample:
  "table_exists typed_db ''_skypy_config''
   \<and> snd (delete_table typed_db ''_skypy_config'') = Inr ()
   \<and> get_table_config typed_db ''_skypy_config'' = Inr None
   \<and> get_table_config (fst (delete_table typed_db ''_skypy_config'')) ''_skypy_config''
        = Inl (SqlError (NoSuchTable ''_skypy_config''))"
  by code_simp

section \<open>Saving a configuration and reading it back\<close>



end
